theory Spec2Isabelle
  imports
    Complex_Main
    "HOL-Library.Sublist"
    "HOL-Library.Multiset"
    "HOL-Library.Char_ord"
    "HOL-Library.List_Lexorder"
    "HOL-Library.Product_Lexorder"
begin

section \<open>Strings as the Python code uses them\<close>

text \<open>
  Text is a list of 8-bit characters. \<open>str.lower\<close> is modelled on the ASCII letters,
  one character at a time; \<open>t in s\<close> on strings is the contiguous-sublist test
  \<^const>\<open>sublist\<close>.
\<close>

definition ascii_uppercase :: string where
  "ascii_uppercase = ''ABCDEFGHIJKLMNOPQRSTUVWXYZ''"

definition ascii_lowercase :: string where
  "ascii_lowercase = ''abcdefghijklmnopqrstuvwxyz''"

definition digits :: string where
  "digits = ''0123456789''"

definition lower_chr :: "char \<Rightarrow> char" where
  "lower_chr c = (case map_of (zip ascii_uppercase ascii_lowercase) c of Some l \<Rightarrow> l | None \<Rightarrow> c)"

definition lower :: "string \<Rightarrow> string" where
  "lower s = map lower_chr s"



section \<open>Snippet generation (\<open>SearchDatabase._generate_snippet\<close>)\<close>





section \<open>URL priority (\<open>SmartCrawler.compute_url_priority\<close>)\<close>

text \<open>
  \<open>urllib.parse.urlparse\<close> is library code: the model takes it as a parameter that
  returns the parsed parts, or \<open>None\<close> where the library raises.
\<close>

record parsed_url =
  scheme :: string
  netloc :: string
  path :: string
  query :: string

type_synonym url_parser = "string \<Rightarrow> parsed_url option"

text \<open>\<open>s.split(c)\<close> for a one-character separator: never empty, one more piece than separators.\<close>

fun split :: "'a \<Rightarrow> 'a list \<Rightarrow> 'a list list" where
  "split c [] = [[]]"
| "split c (x # xs) =
     (if x = c then [] # split c xs
      else (case split c xs of [] \<Rightarrow> [[x]] | w # ws \<Rightarrow> (x # w) # ws))"

definition compute_url_priority ::
  "url_parser \<Rightarrow> (string \<rightharpoonup> int) \<Rightarrow> string \<Rightarrow> int \<Rightarrow> int \<Rightarrow> int" where
  "compute_url_priority urlparse domain_importance url depth source_importance =
     (case urlparse url of
        None \<Rightarrow> 50
      | Some parsed \<Rightarrow>
          let domain = netloc parsed;
              priority = depth * 10;
              priority = (case domain_importance domain of
                            Some imp \<Rightarrow> priority - imp | None \<Rightarrow> priority);
              query_params = (if query parsed \<noteq> []
                              then int (length (split CHR ''&'' (query parsed))) else 0);
              priority = priority + query_params;
              path_segments = int (length (split CHR ''/'' (path parsed)));
              priority = priority + path_segments div 2;
              priority = priority - source_importance
          in max 1 (min 100 priority))"

section \<open>The store (\<open>SearchDatabase\<close>)\<close>

text \<open>
  Tables are lists of rows. Times are rational numbers of seconds; a \<open>REAL\<close> column holds a
  rational. A metadata value is a \<open>TEXT\<close> cell: \<open>SqlInt n\<close> stands for the decimal text of
  \<open>n\<close>, \<open>SqlText\<close> for any text that is not a number.
\<close>

type_synonym timestamp = rat

record document =
  d_id :: int
  d_url :: string
  d_title :: string
  d_content :: string
  d_domain :: string
  d_indexed_date :: timestamp
  d_last_updated :: timestamp
  d_status :: int

record index_entry =
  ie_word :: string
  ie_doc_id :: int
  ie_frequency :: rat
  ie_importance :: rat

record crawler_visit =
  v_url :: string
  v_visit_date :: timestamp
  v_depth :: int
  v_success :: int

datatype sql_value = SqlInt int | SqlText string

record database =
  documents :: "document list"
  index_entries :: "index_entry list"
  metadata :: "string \<rightharpoonup> sql_value \<times> timestamp"
  crawler_visits :: "crawler_visit list"

text \<open>\<open>init_db\<close> on a new file: empty tables, and the two \<open>INSERT OR IGNORE\<close> metadata rows.\<close>

definition init_db :: "timestamp \<Rightarrow> database" where
  "init_db current_time =
     \<lparr> documents = [], index_entries = [],
       metadata = [''doc_count'' \<mapsto> (SqlInt 0, current_time),
                   ''last_crawl_time'' \<mapsto> (SqlInt 0, current_time)],
       crawler_visits = [] \<rparr>"

text \<open>
  The rowid that \<open>INSERT\<close> gives a row of an \<open>INTEGER PRIMARY KEY\<close> table when the
  statement names no id: 1 in an empty table, otherwise one more than the largest id in the
  table. \<open>INSERT OR REPLACE\<close> picks it before it deletes the row that holds the same
  \<open>url\<close>.
\<close>

definition new_rowid :: "document list \<Rightarrow> int" where
  "new_rowid docs = (case map d_id docs of [] \<Rightarrow> 1 | i # ids \<Rightarrow> fold max ids i + 1)"

text \<open>\<open>value + 1\<close> on a \<open>TEXT\<close> cell: text that is not a number counts as 0.\<close>

fun sql_plus_one :: "sql_value \<Rightarrow> sql_value" where
  "sql_plus_one (SqlInt n) = SqlInt (n + 1)"
| "sql_plus_one (SqlText t) = SqlInt 1"

definition db_add_document ::
  "database \<Rightarrow> timestamp \<Rightarrow> string \<Rightarrow> string \<Rightarrow> string \<Rightarrow> string \<Rightarrow> database \<times> int" where
  "db_add_document db current_time url title content domain =
     (let doc_id = new_rowid (documents db);
          docs = filter (\<lambda>d. d_url d \<noteq> url) (documents db) @
                 [\<lparr> d_id = doc_id, d_url = url, d_title = title, d_content = content,
                    d_domain = domain, d_indexed_date = current_time,
                    d_last_updated = current_time, d_status = 1 \<rparr>];
          meta = (case metadata db ''doc_count'' of
                    Some (v, u) \<Rightarrow>
                      if \<not> (\<exists>d \<in> set docs. d_url d = url \<and> d_id d \<noteq> doc_id)
                      then (metadata db)(''doc_count'' \<mapsto> (sql_plus_one v, current_time))
                      else metadata db
                  | None \<Rightarrow> metadata db)
      in (db\<lparr>documents := docs, metadata := meta\<rparr>, doc_id))"

definition update_index :: "database \<Rightarrow> int \<Rightarrow> (string \<times> rat) list \<Rightarrow> database" where
  "update_index db doc_id word_frequencies =
     db\<lparr>index_entries :=
          filter (\<lambda>e. ie_doc_id e \<noteq> doc_id) (index_entries db) @
          map (\<lambda>(word, frequency).
                 \<lparr> ie_word = word, ie_doc_id = doc_id, ie_frequency = frequency,
                   ie_importance = 1 \<rparr>) word_frequencies\<rparr>"

definition mark_url_visited :: "database \<Rightarrow> timestamp \<Rightarrow> string \<Rightarrow> int \<Rightarrow> bool \<Rightarrow> database" where
  "mark_url_visited db visit_date url depth success =
     db\<lparr>crawler_visits :=
          filter (\<lambda>v. v_url v \<noteq> url) (crawler_visits db) @
          [\<lparr> v_url = url, v_visit_date = visit_date, v_depth = depth,
             v_success = (if success then 1 else 0) \<rparr>]\<rparr>"

definition is_url_visited :: "database \<Rightarrow> string \<Rightarrow> bool" where
  "is_url_visited db url = (\<exists>v \<in> set (crawler_visits db). v_url v = url)"

definition update_metadata :: "database \<Rightarrow> timestamp \<Rightarrow> string \<Rightarrow> sql_value \<Rightarrow> database" where
  "update_metadata db current_time key val =
     db\<lparr>metadata := (metadata db)(key \<mapsto> (val, current_time))\<rparr>"

definition get_metadata :: "database \<Rightarrow> string \<Rightarrow> sql_value \<Rightarrow> sql_value" where
  "get_metadata db key dflt = (case metadata db key of Some (v, u) \<Rightarrow> v | None \<Rightarrow> dflt)"

text \<open>The number of active documents: the rows of \<open>documents\<close> with \<open>status = 1\<close>.\<close>

definition active_documents :: "database \<Rightarrow> int" where
  "active_documents db = int (length (filter (\<lambda>d. d_status d = 1) (documents db)))"

section \<open>The indexer (\<open>SearchEngine\<close>)\<close>

text \<open>
  \<open>re.findall(r'\w+', text.lower())\<close>: the maximal runs of word characters (ASCII
  letters, digits and the underscore in this model), in order.
\<close>

definition is_word_chr :: "char \<Rightarrow> bool" where
  "is_word_chr c \<longleftrightarrow> c \<in> set (ascii_lowercase @ ascii_uppercase @ digits @ ''_'')"

fun findall_words :: "string \<Rightarrow> string \<Rightarrow> string list" where
  "findall_words cur [] = (if cur = [] then [] else [cur])"
| "findall_words cur (c # cs) =
     (if is_word_chr c then findall_words (cur @ [c]) cs
      else (if cur = [] then [] else [cur]) @ findall_words [] cs)"

definition stopwords :: "string list" where
  "stopwords = [''a'', ''an'', ''the'', ''and'', ''or'', ''but'', ''is'', ''are'', ''in'', ''on'',
                ''of'', ''to'', ''for'', ''with'']"

definition tokenize :: "string \<Rightarrow> string list" where
  "tokenize text =
     (if text = [] then []
      else filter (\<lambda>word. length word > 1 \<and> word \<notin> set stopwords)
                  (findall_words [] (lower text)))"

text \<open>
  \<open>Counter(words)\<close> keeps each word once, in the order of first occurrence, with its
  count; dividing by the number of tokens gives the frequencies handed to the store.
\<close>

definition first_occurrences :: "'a list \<Rightarrow> 'a list" where
  "first_occurrences xs = rev (remdups (rev xs))"

definition word_frequencies :: "string list \<Rightarrow> (string \<times> rat) list" where
  "word_frequencies words =
     map (\<lambda>word. (word, of_nat (count_list words word) / of_nat (length words)))
         (first_occurrences words)"

datatype error = ValueError

record mem_document =
  m_url :: string
  m_title :: string
  m_content :: string
  m_domain :: string
  m_indexed_date :: timestamp
  m_extra :: "(string \<times> string) list"

record search_engine =
  use_db :: bool
  db :: database
  se_index :: "string \<Rightarrow> int list"
  se_documents :: "int \<rightharpoonup> mem_document"
  doc_count :: int

text \<open>
  \<open>SearchEngine.add_document\<close>. The metadata dictionary is an association list (empty
  for \<open>None\<close>). The result is the engine after the call and what the call returns: a
  raised exception, \<open>None\<close>, or the document id. \<open>int(...)\<close> of metadata text that is
  not a number raises \<open>ValueError\<close>, after the store has been written.
\<close>

definition add_document ::
  "url_parser \<Rightarrow> timestamp \<Rightarrow> search_engine \<Rightarrow> string \<Rightarrow> string \<Rightarrow> string \<Rightarrow>
   (string \<times> string) list \<Rightarrow> search_engine \<times> (error + int option)" where
  "add_document urlparse now se url title content meta =
     (if url = [] \<or> content = [] then (se, Inr None)
      else
        let domain = (case urlparse url of None \<Rightarrow> [] | Some parsed \<Rightarrow> netloc parsed);
            domain = (if meta \<noteq> []
                      then (case map_of meta ''domain'' of Some d \<Rightarrow> d | None \<Rightarrow> domain)
                      else domain)
        in if use_db se then
             let (db1, doc_id) = db_add_document (db se) now url title content domain;
                 words = tokenize (title @ '' '' @ content);
                 db2 = (if words \<noteq> [] then update_index db1 doc_id (word_frequencies words)
                        else db1)
             in (case get_metadata db2 ''doc_count'' (SqlInt 0) of
                   SqlInt n \<Rightarrow> (se\<lparr>db := db2, doc_count := n\<rparr>, Inr (Some doc_id))
                 | SqlText t \<Rightarrow> (se\<lparr>db := db2\<rparr>, Inl ValueError))
           else
             let doc_id = doc_count se;
                 document = \<lparr> m_url = url, m_title = title, m_content = content,
                              m_domain = domain, m_indexed_date = now,
                              m_extra = filter (\<lambda>(k, v). k \<notin> set [''url'', ''title'', ''content'',
                                                   ''domain'', ''indexed_date'']) meta \<rparr>;
                 words = tokenize (title @ '' '' @ content);
                 index = fold (\<lambda>word ix. ix(word := ix word @ [doc_id])) (remdups words)
                              (se_index se)
             in (se\<lparr>se_documents := (se_documents se)(doc_id \<mapsto> document),
                     se_index := index, doc_count := doc_count se + 1\<rparr>,
                 Inr (Some doc_id)))"

section \<open>The crawler (\<open>SmartCrawler\<close>)\<close>

subsection \<open>State\<close>

record crawl_stats =
  crawled :: int
  queued :: int
  indexed :: int
  errors :: int
  skipped_duplicates :: int
  start_time :: timestamp
  status :: string
  current_url :: string
  recent_urls :: "(string \<times> string \<times> string) list"
  max_depth :: "int option"
  domains_crawled :: int
  content_types :: "(string \<times> int) list"
  robots_blocked :: int

text \<open>
  What the crawler keeps of a parsed \<open>robots.txt\<close> (\<open>RobotFileParser\<close>): the crawl
  delay for user agent \<open>*\<close> and the answer of \<open>can_fetch("*", url)\<close>.
\<close>

record robots_rules =
  rp_crawl_delay :: "rat option"
  rp_can_fetch :: "string \<Rightarrow> bool"

text \<open>A queue entry is the tuple \<open>(priority, (url, depth))\<close>, ordered as Python orders tuples.\<close>

type_synonym queue_entry = "int \<times> string \<times> int"

text \<open>
  A Python set is a list without repetitions. \<open>clock\<close> is the wall clock and
  \<open>fetched\<close> the log of the page requests sent (\<open>requests.get\<close>), in order.
  The crawler's \<open>db\<close> is the engine's.
\<close>

record crawler =
  engine :: search_engine
  visited_urls :: "string list"
  queue :: "queue_entry list"
  stats :: crawl_stats
  c_use_db :: bool
  domain_access_times :: "string \<rightharpoonup> rat"
  min_crawl_delay :: rat
  robots_cache :: "string \<rightharpoonup> robots_rules"
  robots_cache_expiry :: "string \<rightharpoonup> timestamp"
  content_fingerprints :: "string \<rightharpoonup> string"
  domain_importance :: "string \<rightharpoonup> int"
  force_recrawl :: bool
  clock :: timestamp
  fetched :: "string list"

subsection \<open>The priority queue (\<open>queue.PriorityQueue\<close> over \<open>heapq\<close>)\<close>

function siftdown :: "'a::linorder list \<Rightarrow> 'a \<Rightarrow> nat \<Rightarrow> 'a list" where
  "siftdown heap newitem pos =
     (if pos > 0 then
        let parentpos = (pos - 1) div 2; parent = heap ! parentpos
        in if newitem < parent then siftdown (heap[pos := parent]) newitem parentpos
           else heap[pos := newitem]
      else heap[pos := newitem])"
  by pat_completeness auto
termination
  by (relation "measure (\<lambda>(heap, newitem, pos). pos)") auto

declare siftdown.simps [simp del]

definition heappush :: "'a::linorder list \<Rightarrow> 'a \<Rightarrow> 'a list" where
  "heappush heap item = siftdown (heap @ [item]) item (length heap)"

subsection \<open>Saving and loading the state\<close>

text \<open>
  A state file holds either bytes that do not unpickle, or a pickled dictionary. An entry
  of the dictionary that is missing, or that has the wrong shape, is \<open>None\<close>. Writing a file
  can fail.
\<close>

record saved_state =
  st_visited_urls :: "string list option"
  st_queue :: "queue_entry list option"
  st_crawl_stats :: "crawl_stats option"
  st_domain_access_times :: "(string \<rightharpoonup> rat) option"
  st_content_fingerprints :: "(string \<rightharpoonup> string) option"

datatype state_file = Garbage | Pickled saved_state

record filesystem =
  files :: "string \<rightharpoonup> state_file"
  writable :: "string \<Rightarrow> bool"

definition save_state :: "filesystem \<Rightarrow> crawler \<Rightarrow> string \<Rightarrow> filesystem \<times> bool" where
  "save_state fs s filename =
     (let state = \<lparr> st_visited_urls = Some (visited_urls s),
                     st_queue = Some (queue s),
                     st_crawl_stats = Some (stats s),
                     st_domain_access_times = Some (domain_access_times s),
                     st_content_fingerprints = Some (content_fingerprints s) \<rparr>
      in if writable fs filename
         then (fs\<lparr>files := (files fs)(filename \<mapsto> Pickled state)\<rparr>, True)
         else (fs, False))"

definition load_state :: "filesystem \<Rightarrow> crawler \<Rightarrow> string \<Rightarrow> crawler \<times> bool" where
  "load_state fs s filename =
     (case files fs filename of
        None \<Rightarrow> (s, False)
      | Some Garbage \<Rightarrow> (s, False)
      | Some (Pickled state) \<Rightarrow>
          (case st_visited_urls state of
             None \<Rightarrow> (s, False)
           | Some urls \<Rightarrow>
               let s = s\<lparr>visited_urls := remdups urls\<rparr>;
                   s = s\<lparr>queue := []\<rparr>
               in (case st_queue state of
                     None \<Rightarrow> (s, False)
                   | Some items \<Rightarrow>
                       let s = s\<lparr>queue := foldl heappush (queue s) items\<rparr>
                       in (case st_crawl_stats state of
                             None \<Rightarrow> (s, False)
                           | Some cs \<Rightarrow>
                               let s = s\<lparr>stats := cs\<rparr>
                               in (case st_domain_access_times state of
                                     None \<Rightarrow> (s, False)
                                   | Some access_times \<Rightarrow>
                                       let s = s\<lparr>domain_access_times := access_times\<rparr>
                                       in (case st_content_fingerprints state of
                                             None \<Rightarrow> (s, False)
                                           | Some fps \<Rightarrow>
                                               (s\<lparr>content_fingerprints := fps\<rparr>, True)))))))"

subsection \<open>The world outside\<close>

text \<open>
  The network and the HTML parser are parameters of the model: what reading a
  \<open>robots.txt\<close> gives, what \<open>requests.get\<close> gives, and what the three extraction
  methods (which run BeautifulSoup) return, \<open>None\<close> where they raise.
\<close>

datatype robots_read = Rules robots_rules | URLError | OtherError

datatype http_result =
  Response int "(string \<times> string) list" string
| RequestException
| OtherException

record environment =
  urlparse :: url_parser
  read_robots :: "string \<Rightarrow> robots_read"
  http_get :: "string \<Rightarrow> http_result"
  extract_text_content :: "string \<Rightarrow> string \<Rightarrow> (string \<times> string) option"
  extract_metadata :: "string \<Rightarrow> string \<Rightarrow> (string \<times> string) list option"
  extract_links :: "string \<Rightarrow> string \<Rightarrow> (string \<times> string) list option"
  md5_hexdigest :: "string \<Rightarrow> string"

subsection \<open>Robots and rate limiting\<close>

definition permissive_rules :: robots_rules where
  "permissive_rules = \<lparr> rp_crawl_delay = None, rp_can_fetch = (\<lambda>url. True) \<rparr>"

definition is_allowed_by_robots :: "environment \<Rightarrow> crawler \<Rightarrow> string \<Rightarrow> crawler \<times> bool" where
  "is_allowed_by_robots env s url =
     (case urlparse env url of
        None \<Rightarrow> (s, True)
      | Some parsed_url \<Rightarrow>
          let domain = netloc parsed_url;
              robots_url = scheme parsed_url @ ''://'' @ domain @ ''/robots.txt'';
              cached = (case robots_cache s domain of
                          None \<Rightarrow> None
                        | Some rp \<Rightarrow>
                            (case robots_cache_expiry s domain of
                               None \<Rightarrow> None
                             | Some expiry \<Rightarrow> if clock s < expiry then Some rp else None));
              fetched_rules =
                (case cached of
                   Some rp \<Rightarrow> Some (s, rp)
                 | None \<Rightarrow>
                     (case read_robots env robots_url of
                        OtherError \<Rightarrow> None
                      | URLError \<Rightarrow>
                          Some (s\<lparr>robots_cache := (robots_cache s)(domain \<mapsto> permissive_rules),
                                  robots_cache_expiry :=
                                    (robots_cache_expiry s)(domain \<mapsto> clock s + 86400)\<rparr>,
                                permissive_rules)
                      | Rules rp \<Rightarrow>
                          Some (s\<lparr>robots_cache := (robots_cache s)(domain \<mapsto> rp),
                                  robots_cache_expiry :=
                                    (robots_cache_expiry s)(domain \<mapsto> clock s + 86400)\<rparr>,
                                rp)))
          in (case fetched_rules of
                None \<Rightarrow> (s, True)
              | Some (s, rp) \<Rightarrow>
                  let s = (case rp_crawl_delay rp of
                             None \<Rightarrow> s
                           | Some crawl_delay \<Rightarrow>
                               if crawl_delay \<noteq> 0
                               then s\<lparr>domain_access_times :=
                                        (domain_access_times s)
                                          (domain \<mapsto> max (min_crawl_delay s) crawl_delay)\<rparr>
                               else s)
                  in (s, rp_can_fetch rp url)))"

text \<open>\<open>_apply_rate_limiting\<close>; sleeping moves the clock. \<open>None\<close> where it raises.\<close>

definition apply_rate_limiting :: "environment \<Rightarrow> crawler \<Rightarrow> string \<Rightarrow> crawler option" where
  "apply_rate_limiting env s url =
     (case urlparse env url of
        None \<Rightarrow> None
      | Some parsed_url \<Rightarrow>
          let domain = netloc parsed_url;
              s = (case domain_access_times s domain of
                     None \<Rightarrow> s
                   | Some last_access_time \<Rightarrow>
                       let time_since_last = clock s - last_access_time;
                           min_delay = min_crawl_delay s
                       in if time_since_last < min_delay
                          then s\<lparr>clock := clock s + (min_delay - time_since_last)\<rparr>
                          else s)
          in Some (s\<lparr>domain_access_times := (domain_access_times s)(domain \<mapsto> clock s)\<rparr>))"

subsection \<open>Content fingerprints\<close>

text \<open>\<open>re.sub(r'\s+', ' ', content)\<close>: every run of white space becomes one space.\<close>

definition is_space_chr :: "char \<Rightarrow> bool" where
  "is_space_chr c \<longleftrightarrow> c \<in> set [CHR '' '', CHR 0x09, CHR 0x0A, CHR 0x0B, CHR 0x0C, CHR 0x0D]"

fun collapse_from :: "bool \<Rightarrow> string \<Rightarrow> string" where
  "collapse_from in_run [] = []"
| "collapse_from in_run (c # cs) =
     (if is_space_chr c
      then (if in_run then collapse_from True cs else CHR '' '' # collapse_from True cs)
      else c # collapse_from False cs)"

definition collapse_spaces :: "string \<Rightarrow> string" where
  "collapse_spaces content = collapse_from False content"

definition compute_content_fingerprint :: "environment \<Rightarrow> string \<Rightarrow> string \<Rightarrow> string" where
  "compute_content_fingerprint env content title =
     (let text = collapse_spaces content;
          text = (if title \<noteq> [] then title @ '' '' @ title @ '' '' @ text else text)
      in md5_hexdigest env text)"

definition is_duplicate_content :: "crawler \<Rightarrow> string \<Rightarrow> string \<Rightarrow> crawler \<times> bool" where
  "is_duplicate_content s fingerprint url =
     (case content_fingerprints s fingerprint of
        Some first_url \<Rightarrow> (s, True)
      | None \<Rightarrow> (s\<lparr>content_fingerprints := (content_fingerprints s)(fingerprint \<mapsto> url)\<rparr>, False))"

subsection \<open>Enqueueing links (\<open>_add_links_to_queue\<close>)\<close>

definition skipped_extensions :: "string list" where
  "skipped_extensions =
     [''.pdf'', ''.jpg'', ''.jpeg'', ''.png'', ''.gif'', ''.zip'', ''.exe'', ''.doc'', ''.docx'']"

text \<open>One iteration of the loop over the links; the state carries \<open>links_added\<close>.\<close>

definition add_link ::
  "environment \<Rightarrow> int \<Rightarrow> crawler \<times> int \<Rightarrow> string \<times> string \<Rightarrow> crawler \<times> int" where
  "add_link env next_depth acc link =
     (case (acc, link) of ((s, links_added), (link_url, link_text)) \<Rightarrow>
        if link_url \<in> set (visited_urls s) then (s, links_added)
        else if \<not> force_recrawl s \<and> c_use_db s \<and> is_url_visited (db (engine s)) link_url
        then (s, links_added)
        else if \<not> (prefix ''http://'' link_url \<or> prefix ''https://'' link_url)
        then (s, links_added)
        else
          (case urlparse env link_url of
             None \<Rightarrow> (s, links_added)
           | Some parsed_url \<Rightarrow>
               let path = lower (path parsed_url)
               in if \<exists>ext \<in> set skipped_extensions. suffix ext path then (s, links_added)
                  else
                    let priority = compute_url_priority (urlparse env) (domain_importance s)
                                     link_url next_depth 5
                    in (s\<lparr>queue := heappush (queue s) (priority, link_url, next_depth),
                           stats := (stats s)\<lparr>queued := queued (stats s) + 1\<rparr>\<rparr>,
                        links_added + 1)))"

definition add_links_to_queue ::
  "environment \<Rightarrow> crawler \<Rightarrow> (string \<times> string) list \<Rightarrow> int \<Rightarrow> crawler \<times> int" where
  "add_links_to_queue env s links current_depth =
     (let next_depth = current_depth + 1;
          max_links = min 100 (length links)
      in foldl (add_link env next_depth) (s, 0) (take max_links links))"

subsection \<open>Processing a fetched page (\<open>_process_page\<close>)\<close>

text \<open>
  The method that checks fingerprints. \<open>None\<close> where it raises (parsing the URL, before
  the \<open>try\<close> block); inside the block an exception adds 1 to \<open>errors\<close>.
\<close>

definition count_error :: "crawler \<Rightarrow> crawler" where
  "count_error s = s\<lparr>stats := (stats s)\<lparr>errors := errors (stats s) + 1\<rparr>\<rparr>"

definition process_page ::
  "environment \<Rightarrow> crawler \<Rightarrow> string \<Rightarrow> string \<Rightarrow> (string \<times> string) list \<Rightarrow> int \<Rightarrow> crawler option" where
  "process_page env s url content headers depth =
     (case urlparse env url of
        None \<Rightarrow> None
      | Some parsed_url \<Rightarrow>
          let domain = netloc parsed_url;
              domain_key = ''domain:'' @ domain;
              s = (if domain_key \<notin> set (visited_urls s)
                   then s\<lparr>visited_urls := List.insert domain_key (visited_urls s),
                          stats := (stats s)\<lparr>domains_crawled := domains_crawled (stats s) + 1\<rparr>\<rparr>
                   else s);
              content_type = lower (case map_of headers ''Content-Type'' of
                                      Some v \<Rightarrow> v | None \<Rightarrow> [])
          in if \<not> prefix ''text/html'' content_type then Some s
             else if content = [] \<or> length content < 100 then Some s
             else
               (case extract_text_content env content url of
                  None \<Rightarrow> Some (count_error s)
                | Some (title, main_content) \<Rightarrow>
                    let content_fingerprint = compute_content_fingerprint env main_content title
                    in (case is_duplicate_content s content_fingerprint url of
                          (s, True) \<Rightarrow>
                            Some (s\<lparr>stats := (stats s)\<lparr>skipped_duplicates :=
                                                            skipped_duplicates (stats s) + 1\<rparr>\<rparr>)
                        | (s, False) \<Rightarrow>
                            (case extract_metadata env content url of
                               None \<Rightarrow> Some (count_error s)
                             | Some meta \<Rightarrow>
                                 (case add_document (urlparse env) (clock s) (engine s) url title
                                         main_content meta of
                                    (se, Inl e) \<Rightarrow> Some (count_error (s\<lparr>engine := se\<rparr>))
                                  | (se, Inr doc_id) \<Rightarrow>
                                      let s = s\<lparr>engine := se\<rparr>;
                                          s = s\<lparr>stats := (stats s)\<lparr>indexed := indexed (stats s) + 1\<rparr>\<rparr>;
                                          title_display = (if length title > 50
                                                           then take 50 title @ ''...'' else title);
                                          s = s\<lparr>stats := (stats s)\<lparr>recent_urls :=
                                                 take 5 ((url, title_display, domain) #
                                                         recent_urls (stats s))\<rparr>\<rparr>
                                      in if depth < (case max_depth (stats s) of
                                                       Some d \<Rightarrow> d | None \<Rightarrow> 2)
                                         then (case extract_links env content url of
                                                 None \<Rightarrow> Some (count_error s)
                                               | Some links \<Rightarrow>
                                                   Some (fst (add_links_to_queue env s links depth)))
                                         else Some s)))))"

subsection \<open>One turn of the crawl loop (\<open>_crawl_thread\<close>)\<close>

text \<open>
  The body of the \<open>while\<close> loop for the entry \<open>(priority, (url, depth))\<close> that
  \<open>queue.get\<close> returned. Progress broadcasts and \<open>task_done\<close> change nothing the model
  keeps.
\<close>

definition mark_failed :: "crawler \<Rightarrow> string \<Rightarrow> crawler" where
  "mark_failed s url =
     s\<lparr>stats := (stats s)\<lparr>errors := errors (stats s) + 1\<rparr>,
       visited_urls := List.insert url (visited_urls s)\<rparr>"

text \<open>The inner \<open>try\<close> block: extract, index, enqueue. An exception ends it where it is.\<close>

definition process_content :: "environment \<Rightarrow> crawler \<Rightarrow> string \<Rightarrow> int \<Rightarrow> string \<Rightarrow> crawler" where
  "process_content env s url depth content =
     (case extract_text_content env content url of
        None \<Rightarrow> s
      | Some (title, main_content) \<Rightarrow>
          (case extract_metadata env content url of
             None \<Rightarrow> s
           | Some meta \<Rightarrow>
               (case add_document (urlparse env) (clock s) (engine s) url title main_content meta of
                  (se, Inl e) \<Rightarrow> s\<lparr>engine := se\<rparr>
                | (se, Inr doc_id) \<Rightarrow>
                    let s = s\<lparr>engine := se\<rparr>;
                        s = s\<lparr>stats := (stats s)\<lparr>indexed := indexed (stats s) + 1\<rparr>\<rparr>
                    in if depth < (case max_depth (stats s) of Some d \<Rightarrow> d | None \<Rightarrow> 2)
                       then (case extract_links env content url of
                               None \<Rightarrow> s
                             | Some links \<Rightarrow> fst (add_links_to_queue env s links depth))
                       else s)))"

definition fetch_and_process :: "environment \<Rightarrow> crawler \<Rightarrow> string \<Rightarrow> int \<Rightarrow> crawler" where
  "fetch_and_process env s url depth =
     (let s = s\<lparr>fetched := fetched s @ [url]\<rparr>
      in case http_get env url of
           RequestException \<Rightarrow> mark_failed s url
         | OtherException \<Rightarrow> mark_failed s url
         | Response status_code headers content \<Rightarrow>
             if status_code = 200 then
               let s = s\<lparr>visited_urls := List.insert url (visited_urls s)\<rparr>;
                   s = s\<lparr>stats := (stats s)\<lparr>crawled := crawled (stats s) + 1\<rparr>\<rparr>;
                   content_type = lower (case map_of headers ''Content-Type'' of
                                           Some v \<Rightarrow> v | None \<Rightarrow> [])
               in if \<not> (sublist ''text/html'' content_type \<or>
                         sublist ''application/xhtml+xml'' content_type)
                  then s
                  else process_content env s url depth content
             else mark_failed s url)"

definition crawl_thread_step :: "environment \<Rightarrow> crawler \<Rightarrow> queue_entry \<Rightarrow> crawler" where
  "crawl_thread_step env s entry =
     (case entry of (priority, url, depth) \<Rightarrow>
        if url \<in> set (visited_urls s) then s
        else if \<not> force_recrawl s \<and> c_use_db s \<and> is_url_visited (db (engine s)) url
        then s\<lparr>visited_urls := List.insert url (visited_urls s)\<rparr>
        else
          let s = s\<lparr>stats := (stats s)\<lparr>current_url := url\<rparr>\<rparr>
          in (case is_allowed_by_robots env s url of
                (s, False) \<Rightarrow>
                  s\<lparr>stats := (stats s)\<lparr>robots_blocked := robots_blocked (stats s) + 1\<rparr>,
                    visited_urls := List.insert url (visited_urls s)\<rparr>
              | (s, True) \<Rightarrow>
                  let s = (case apply_rate_limiting env s url of None \<Rightarrow> s | Some s' \<Rightarrow> s')
                  in fetch_and_process env s url depth))"

subsection \<open>Construction\<close>

text \<open>\<open>SearchEngine.__init__\<close> with \<open>use_db=True\<close> on a new database file.\<close>

definition new_engine :: "timestamp \<Rightarrow> search_engine" where
  "new_engine now =
     \<lparr> use_db = True, db = init_db now, se_index = (\<lambda>word. []),
       se_documents = Map.empty, doc_count = 0 \<rparr>"

text \<open>\<open>SmartCrawler.__init__\<close>, with no settings file.\<close>

definition initial_stats :: crawl_stats where
  "initial_stats =
     \<lparr> crawled = 0, queued = 0, indexed = 0, errors = 0, skipped_duplicates = 0,
       start_time = 0, status = ''idle'', current_url = [], recent_urls = [],
       max_depth = None, domains_crawled = 0, content_types = [], robots_blocked = 0 \<rparr>"

definition new_crawler :: "search_engine \<Rightarrow> timestamp \<Rightarrow> crawler" where
  "new_crawler search_engine now =
     \<lparr> engine = search_engine, visited_urls = [], queue = [], stats = initial_stats,
       c_use_db = use_db search_engine, domain_access_times = Map.empty,
       min_crawl_delay = 1, robots_cache = Map.empty, robots_cache_expiry = Map.empty,
       content_fingerprints = Map.empty, domain_importance = Map.empty,
       force_recrawl = False, clock = now, fetched = [] \<rparr>"

subsection \<open>A small web for examples\<close>

text \<open>
  One host \<open>h\<close> whose \<open>robots.txt\<close> disallows \<open>/private\<close>. Every other page is
  served as HTML with the same title and text, and links nowhere.
\<close>

definition example_env :: environment where
  "example_env =
     \<lparr> urlparse = (\<lambda>url. Some \<lparr> scheme = ''http'', netloc = ''h'',
                                  path = drop 8 url, query = [] \<rparr>),
       read_robots = (\<lambda>robots_url.
          Rules \<lparr> rp_crawl_delay = None,
                  rp_can_fetch = (\<lambda>url. url \<noteq> ''http://h/private'') \<rparr>),
       http_get = (\<lambda>url. Response 200 [(''Content-Type'', ''text/html'')] ''<html/>''),
       extract_text_content = (\<lambda>html url. Some (''News'', ''python snakes bite'')),
       extract_metadata = (\<lambda>html url. Some [(''url'', url), (''domain'', ''h'')]),
       extract_links = (\<lambda>html url. Some []),
       md5_hexdigest = (\<lambda>text. text) \<rparr>"

subsection \<open>Invariants of the queue and of state files\<close>

text \<open>The heap order \<open>heapq\<close> maintains: no entry is smaller than its parent.\<close>

definition is_heap :: "'a::linorder list \<Rightarrow> bool" where
  "is_heap h \<longleftrightarrow> (\<forall>i \<in> set [1 ..< length h]. h ! ((i - 1) div 2) \<le> h ! i)"

text \<open>A pickled dictionary that has all five entries.\<close>

definition complete_state :: "saved_state \<Rightarrow> bool" where
  "complete_state state \<longleftrightarrow>
     st_visited_urls state \<noteq> None \<and> st_queue state \<noteq> None \<and> st_crawl_stats state \<noteq> None \<and>
     st_domain_access_times state \<noteq> None \<and> st_content_fingerprints state \<noteq> None"

section \<open>Properties of the snippet\<close>













lemma lower_chr_x [simp]: "lower_chr CHR ''x'' = CHR ''x''"
  by (simp add: lower_chr_def ascii_uppercase_def ascii_lowercase_def)

lemma lower_chr_z [simp]: "lower_chr CHR ''z'' = CHR ''z''"
  by (simp add: lower_chr_def ascii_uppercase_def ascii_lowercase_def)

lemma lower_chr_a [simp]: "lower_chr CHR ''a'' = CHR ''a''"
  by (simp add: lower_chr_def ascii_uppercase_def ascii_lowercase_def)

lemma lower_chr_dot [simp]: "lower_chr CHR ''.'' = CHR ''.''"
  by (simp add: lower_chr_def ascii_uppercase_def ascii_lowercase_def)













section \<open>Properties of the URL priority\<close>

lemma length_split: "length (split c s) = count_list s c + 1"
  by (induction s) (auto split: list.splits)

text \<open>
  C8. When the URL parses, the priority is the clamped sum of the claim; and whatever the
  input, also when parsing raises, the priority lies between 1 and 100.
\<close>

theorem compute_url_priority_clamped_formula:
  "(parse url = Some p \<longrightarrow>
      compute_url_priority parse importance url depth source_importance =
        max 1 (min 100
          (depth * 10
           - (case importance (netloc p) of Some imp \<Rightarrow> imp | None \<Rightarrow> 0)
           + (if query p = [] then 0 else int (length (split CHR ''&'' (query p))))
           + int (length (split CHR ''/'' (path p))) div 2
           - source_importance))) \<and>
   1 \<le> compute_url_priority parse importance url depth source_importance \<and>
   compute_url_priority parse importance url depth source_importance \<le> 100"
  by (auto simp: compute_url_priority_def Let_def split: option.splits)

theorem compute_url_priority_clamped_formula_witness:
  "compute_url_priority
     (\<lambda>u. Some \<lparr> scheme = ''http'', netloc = ''h'', path = ''/a/b'', query = ''x=1&y=2'' \<rparr>)
     [''h'' \<mapsto> 3] ''http://h/a/b?x=1&y=2'' 2 5 = 15"
  using compute_url_priority_clamped_formula
    [of "\<lambda>u. Some \<lparr> scheme = ''http'', netloc = ''h'', path = ''/a/b'', query = ''x=1&y=2'' \<rparr>"
        "''http://h/a/b?x=1&y=2''"
        "\<lparr> scheme = ''http'', netloc = ''h'', path = ''/a/b'', query = ''x=1&y=2'' \<rparr>"
        "[''h'' \<mapsto> 3]" 2 5]
  by simp

section \<open>Properties of the priority queue\<close>

lemma mset_siftdown:
  "pos < length heap \<Longrightarrow> mset (siftdown heap newitem pos) = mset (heap[pos := newitem])"
proof (induction heap newitem pos rule: siftdown.induct)
  case (1 heap newitem pos)
  show ?case
  proof (cases "pos > 0 \<and> newitem < heap ! ((pos - 1) div 2)")
    case False
    then show ?thesis by (subst siftdown.simps) (auto simp: Let_def)
  next
    case True
    define pp where "pp = (pos - 1) div 2"
    have pp: "pp < pos" "pp < length heap" using True "1.prems" by (auto simp: pp_def)
    have "siftdown heap newitem pos = siftdown (heap[pos := heap ! pp]) newitem pp"
      using True by (subst siftdown.simps) (simp add: Let_def pp_def)
    also have "mset \<dots> = mset (heap[pos := heap ! pp, pp := newitem])"
      using "1.IH"[OF _ refl refl] True pp by (simp add: pp_def)
    also have "\<dots> = mset (heap[pos := newitem])"
      using pp "1.prems" by (simp add: mset_update nth_list_update)
    finally show ?thesis .
  qed
qed

lemma mset_heappush: "mset (heappush heap item) = add_mset item (mset heap)"
  by (simp add: heappush_def mset_siftdown)

lemma mset_foldl_heappush: "mset (foldl heappush heap items) = mset heap + mset items"
  by (induction items arbitrary: heap) (simp_all add: mset_heappush)

text \<open>Pushing the entries of a heap, in the order of its list, builds the same list.\<close>

lemma heappush_take:
  assumes "is_heap h" "k < length h"
  shows "heappush (take k h) (h ! k) = take (Suc k) h"
proof -
  have t: "take k h @ [h ! k] = take (Suc k) h"
    using assms(2) by (simp add: take_Suc_conv_app_nth)
  have upd: "(take (Suc k) h)[k := h ! k] = take (Suc k) h"
  proof -
    have "take (Suc k) h ! k = h ! k" by simp
    then show ?thesis by (metis list_update_id)
  qed
  have "siftdown (take (Suc k) h) (h ! k) k = take (Suc k) h"
  proof (cases "k > 0")
    case False
    then show ?thesis by (subst siftdown.simps) (use upd in simp)
  next
    case True
    then have "h ! ((k - 1) div 2) \<le> h ! k" using assms by (simp add: is_heap_def)
    moreover have "take (Suc k) h ! ((k - 1) div 2) = h ! ((k - 1) div 2)" using True by simp
    ultimately have nl: "\<not> h ! k < take (Suc k) h ! ((k - 1) div 2)" by simp
    have "siftdown (take (Suc k) h) (h ! k) k = (take (Suc k) h)[k := h ! k]"
      by (subst siftdown.simps) (simp only: Let_def nl if_False if_True True)
    then show ?thesis by (simp only: upd)
  qed
  then show ?thesis using assms(2) by (simp add: heappush_def t)
qed

lemma foldl_heappush_rebuild:
  assumes "is_heap h" "k \<le> length h"
  shows "foldl heappush (take k h) (drop k h) = h"
  using assms(2)
proof (induction "length h - k" arbitrary: k)
  case 0
  then show ?case by simp
next
  case (Suc n)
  then have k: "k < length h" by simp
  then have "drop k h = h ! k # drop (Suc k) h" by (simp add: Cons_nth_drop_Suc)
  then have "foldl heappush (take k h) (drop k h)
             = foldl heappush (take (Suc k) h) (drop (Suc k) h)"
    using heappush_take[OF assms(1) k] by simp
  also have "\<dots> = h" using Suc k by (intro Suc.hyps(1)) simp_all
  finally show ?case .
qed

lemma foldl_heappush_id: "is_heap h \<Longrightarrow> foldl heappush [] h = h"
  using foldl_heappush_rebuild[of h 0] by simp

section \<open>Properties of saving and loading\<close>

lemma load_state_True_iff:
  "snd (load_state fs s filename) \<longleftrightarrow>
     (\<exists>state. files fs filename = Some (Pickled state) \<and> complete_state state)"
  by (auto simp: load_state_def complete_state_def Let_def
      split: option.splits state_file.splits)

lemma load_saved_state:
  assumes "save_state fs s filename = (fs', True)"
  shows "load_state fs' s0 filename =
           (s0\<lparr>visited_urls := remdups (visited_urls s),
               queue := foldl heappush [] (queue s),
               stats := stats s,
               domain_access_times := domain_access_times s,
               content_fingerprints := content_fingerprints s\<rparr>, True)"
proof -
  from assms have "files fs' filename =
      Some (Pickled \<lparr> st_visited_urls = Some (visited_urls s), st_queue = Some (queue s),
                      st_crawl_stats = Some (stats s),
                      st_domain_access_times = Some (domain_access_times s),
                      st_content_fingerprints = Some (content_fingerprints s) \<rparr>)"
    by (auto simp: save_state_def Let_def split: if_splits)
  then show ?thesis by (simp add: load_state_def Let_def)
qed

text \<open>
  C9. If \<open>save_state\<close> wrote the file (it returned \<open>True\<close>), then \<open>load_state\<close> on that
  file, from any crawler state, returns \<open>True\<close> and restores the visited set, the queue
  entries with their priorities, the statistics, the access times and the fingerprint table.
  The visited list and the heap list come back letter for letter when they were a set and a
  heap. \<open>load_state\<close> returns \<open>False\<close> when the file is missing, does not unpickle, or
  lacks one of the five entries.
\<close>

theorem save_load_roundtrip:
  "(save_state fs s filename = (fs', True) \<longrightarrow>
      snd (load_state fs' s0 filename) = True \<and>
      set (visited_urls (fst (load_state fs' s0 filename))) = set (visited_urls s) \<and>
      (distinct (visited_urls s) \<longrightarrow>
         visited_urls (fst (load_state fs' s0 filename)) = visited_urls s) \<and>
      mset (queue (fst (load_state fs' s0 filename))) = mset (queue s) \<and>
      (is_heap (queue s) \<longrightarrow> queue (fst (load_state fs' s0 filename)) = queue s) \<and>
      stats (fst (load_state fs' s0 filename)) = stats s \<and>
      domain_access_times (fst (load_state fs' s0 filename)) = domain_access_times s \<and>
      content_fingerprints (fst (load_state fs' s0 filename)) = content_fingerprints s) \<and>
   (files fs filename = None \<or> files fs filename = Some Garbage \<or>
      (\<exists>state. files fs filename = Some (Pickled state) \<and> \<not> complete_state state) \<longrightarrow>
      snd (load_state fs s0 filename) = False)"
proof (intro conjI impI)
  assume "files fs filename = None \<or> files fs filename = Some Garbage \<or>
      (\<exists>state. files fs filename = Some (Pickled state) \<and> \<not> complete_state state)"
  then show "snd (load_state fs s0 filename) = False"
    using load_state_True_iff[of fs s0 filename] by auto
qed (simp_all add: load_saved_state mset_foldl_heappush foldl_heappush_id distinct_remdups_id)

theorem save_load_roundtrip_witness:
  "snd (load_state
          (fst (save_state \<lparr> files = Map.empty, writable = (\<lambda>f. True) \<rparr>
                  ((new_crawler (new_engine 0) 0)
                     \<lparr>visited_urls := [''http://h/a''],
                      queue := [(11, ''http://h/b'', 1), (12, ''http://h/c'', 1)]\<rparr>)
                  ''crawler_state.gz''))
          (new_crawler (new_engine 0) 0) ''crawler_state.gz'') = True \<and>
   visited_urls (fst (load_state
          (fst (save_state \<lparr> files = Map.empty, writable = (\<lambda>f. True) \<rparr>
                  ((new_crawler (new_engine 0) 0)
                     \<lparr>visited_urls := [''http://h/a''],
                      queue := [(11, ''http://h/b'', 1), (12, ''http://h/c'', 1)]\<rparr>)
                  ''crawler_state.gz''))
          (new_crawler (new_engine 0) 0) ''crawler_state.gz'')) = [''http://h/a''] \<and>
   queue (fst (load_state
          (fst (save_state \<lparr> files = Map.empty, writable = (\<lambda>f. True) \<rparr>
                  ((new_crawler (new_engine 0) 0)
                     \<lparr>visited_urls := [''http://h/a''],
                      queue := [(11, ''http://h/b'', 1), (12, ''http://h/c'', 1)]\<rparr>)
                  ''crawler_state.gz''))
          (new_crawler (new_engine 0) 0) ''crawler_state.gz''))
     = [(11, ''http://h/b'', 1), (12, ''http://h/c'', 1)] \<and>
   snd (load_state \<lparr> files = Map.empty, writable = (\<lambda>f. True) \<rparr>
          (new_crawler (new_engine 0) 0) ''crawler_state.gz'') = False"
proof -
  define fs :: filesystem where "fs = \<lparr> files = Map.empty, writable = (\<lambda>f. True) \<rparr>"
  define s where "s = (new_crawler (new_engine 0) 0)
                     \<lparr>visited_urls := [''http://h/a''],
                      queue := [(11, ''http://h/b'', 1), (12, ''http://h/c'', 1)]\<rparr>"
  have sv: "save_state fs s ''crawler_state.gz'' = (fst (save_state fs s ''crawler_state.gz''), True)"
    by (simp add: save_state_def fs_def)
  have d: "distinct (visited_urls s)" by (simp add: s_def)
  have h: "is_heap (queue s)" by (simp add: s_def is_heap_def)
  have m: "files fs ''crawler_state.gz'' = None" by (simp add: fs_def)
  have v: "visited_urls s = [''http://h/a'']"
    and q: "queue s = [(11, ''http://h/b'', 1), (12, ''http://h/c'', 1)]"
    by (simp_all add: s_def)
  show ?thesis
    using save_load_roundtrip [of fs s "''crawler_state.gz''"
        "fst (save_state fs s ''crawler_state.gz'')" "new_crawler (new_engine 0) 0"]
      sv d h m v q
    unfolding fs_def [symmetric] s_def [symmetric] by simp
qed




section \<open>Properties of the store and the indexer\<close>

lemma new_rowid_greater: "d \<in> set docs \<Longrightarrow> d_id d < new_rowid docs"
proof -
  assume d: "d \<in> set docs"
  then obtain i ids where m: "map d_id docs = i # ids" by (cases docs) auto
  have "d_id d \<in> set (i # ids)" using d m by (metis image_eqI list.set_map)
  then have "d_id d \<le> Max (set (i # ids))" by (intro Max_ge) simp_all
  also have "\<dots> = fold max ids i" by (rule Max.set_eq_fold)
  finally show ?thesis by (simp add: new_rowid_def m)
qed

text \<open>Whatever the table holds, the id \<open>add_document\<close> returns was no row's id before.\<close>

lemma db_add_document_fresh_id:
  "d \<in> set (documents store) \<Longrightarrow>
   d_id d < snd (db_add_document store current_time url title content domain)"
  by (simp add: db_add_document_def Let_def new_rowid_greater)

lemma db_add_document_one_row:
  "filter (\<lambda>d. d_url d = url)
     (documents (fst (db_add_document store current_time url title content domain)))
   = [\<lparr> d_id = snd (db_add_document store current_time url title content domain), d_url = url,
        d_title = title, d_content = content, d_domain = domain,
        d_indexed_date = current_time, d_last_updated = current_time, d_status = 1 \<rparr>]"
  by (simp add: db_add_document_def Let_def filter_empty_conv)

text \<open>\<open>update_index\<close> rewrites the postings of one document id and no others.\<close>

lemma update_index_own_postings:
  "filter (\<lambda>e. ie_doc_id e = doc_id) (index_entries (update_index store doc_id freqs))
   = map (\<lambda>(word, frequency).
            \<lparr> ie_word = word, ie_doc_id = doc_id, ie_frequency = frequency, ie_importance = 1 \<rparr>)
         freqs"
  by (induction freqs) (auto simp: update_index_def filter_empty_conv)

lemma update_index_other_postings:
  "filter (\<lambda>e. ie_doc_id e \<noteq> doc_id) (index_entries (update_index store doc_id freqs))
   = filter (\<lambda>e. ie_doc_id e \<noteq> doc_id) (index_entries store)"
  by (induction freqs) (auto simp: update_index_def filter_empty_conv)

text \<open>
  C1 on the code. A url stored under id 1 is stored under id 2 after it is added again:
  \<open>INSERT OR REPLACE\<close> deletes the old row and inserts a new one. One row is left for the
  url.
\<close>

theorem add_document_replaces_doc_id:
  "snd (db_add_document (init_db 0) 1 ''http://h/a'' ''T'' ''hello'' ''h'') = 1 \<and>
   snd (db_add_document
          (fst (db_add_document (init_db 0) 1 ''http://h/a'' ''T'' ''hello'' ''h''))
          2 ''http://h/a'' ''T'' ''hello'' ''h'') = 2 \<and>
   map d_id (documents (fst (db_add_document
          (fst (db_add_document (init_db 0) 1 ''http://h/a'' ''T'' ''hello'' ''h''))
          2 ''http://h/a'' ''T'' ''hello'' ''h''))) = [2]"
  by code_simp

text \<open>
  C2 on the code. After the same url is added twice to a new database, \<open>doc_count\<close> is 2
  and one document is active: the \<open>NOT EXISTS\<close> guard looks for another row with the same
  url, and the url is unique.
\<close>

theorem add_document_counts_readd:
  "get_metadata (fst (db_add_document
          (fst (db_add_document (init_db 0) 1 ''http://h/a'' ''T'' ''hello'' ''h''))
          2 ''http://h/a'' ''T'' ''hello'' ''h'')) ''doc_count'' (SqlInt 0) = SqlInt 2 \<and>
   active_documents (fst (db_add_document
          (fst (db_add_document (init_db 0) 1 ''http://h/a'' ''T'' ''hello'' ''h''))
          2 ''http://h/a'' ''T'' ''hello'' ''h'')) = 1"
  by code_simp

text \<open>
  C3 on the code. A page indexed with the text \<open>snakes bite\<close> and then, under the same
  url, with \<open>rivers flow\<close>: the postings of the first indexing stay in
  \<open>index_entries\<close> under document id 1, which no document has any more.
\<close>

theorem reindex_leaves_old_postings:
  "map (\<lambda>e. (ie_word e, ie_doc_id e))
     (index_entries (db (fst (add_document (urlparse example_env) 2
        (fst (add_document (urlparse example_env) 1 (new_engine 0)
                ''http://h/a'' ''python'' ''snakes bite'' []))
        ''http://h/a'' ''python'' ''rivers flow'' []))))
   = [(''python'', 1), (''snakes'', 1), (''bite'', 1),
      (''python'', 2), (''rivers'', 2), (''flow'', 2)] \<and>
   map d_id (documents (db (fst (add_document (urlparse example_env) 2
        (fst (add_document (urlparse example_env) 1 (new_engine 0)
                ''http://h/a'' ''python'' ''snakes bite'' []))
        ''http://h/a'' ''python'' ''rivers flow'' [])))) = [2]"
  by code_simp

text \<open>
  C4 on the code. A document with the title \<open>python\<close>: the posting of the title term
  \<open>python\<close> is stored with importance 1, as every posting is (\<open>update_index\<close> leaves
  the column to its default).
\<close>

theorem title_term_importance_is_one:
  "''python'' \<in> set (tokenize ''python'') \<and>
   map (\<lambda>e. (ie_word e, ie_importance e))
     (index_entries (db (fst (add_document (urlparse example_env) 1 (new_engine 0)
        ''http://h/a'' ''python'' ''snakes bite'' []))))
   = [(''python'', 1), (''snakes'', 1), (''bite'', 1)]"
  by code_simp

section \<open>Properties of the crawl loop\<close>

text \<open>The fingerprint check, where it is made: the first URL of a fingerprint stays.\<close>

lemma is_duplicate_content_keeps_first:
  "content_fingerprints s fingerprint = Some first_url \<Longrightarrow>
   is_duplicate_content s fingerprint url = (s, True)"
  by (simp add: is_duplicate_content_def)

lemma process_page_skips_duplicate:
  assumes "urlparse env url = Some parsed_url"
    and "''domain:'' @ netloc parsed_url \<in> set (visited_urls s)"
    and "prefix ''text/html'' (lower (case map_of headers ''Content-Type'' of Some v \<Rightarrow> v | None \<Rightarrow> []))"
    and "100 \<le> length content"
    and "extract_text_content env content url = Some (title, main_content)"
    and "content_fingerprints s (compute_content_fingerprint env main_content title) = Some first_url"
  shows "process_page env s url content headers depth =
           Some (s\<lparr>stats := (stats s)\<lparr>skipped_duplicates := skipped_duplicates (stats s) + 1\<rparr>\<rparr>)"
  using assms by (auto simp: process_page_def Let_def is_duplicate_content_def)

text \<open>No turn of the crawl loop changes the duplicate counter or the fingerprint table.\<close>

lemma add_link_dedup_frame:
  "skipped_duplicates (stats (fst (add_link env d acc link))) = skipped_duplicates (stats (fst acc)) \<and>
   content_fingerprints (fst (add_link env d acc link)) = content_fingerprints (fst acc)"
  by (cases acc; cases link) (auto simp: add_link_def Let_def split: option.splits)

lemma foldl_add_link_dedup_frame:
  "skipped_duplicates (stats (fst (foldl (add_link env d) acc links))) = skipped_duplicates (stats (fst acc)) \<and>
   content_fingerprints (fst (foldl (add_link env d) acc links)) = content_fingerprints (fst acc)"
  by (induction links arbitrary: acc) (simp_all add: add_link_dedup_frame)

lemma process_content_dedup_frame:
  "skipped_duplicates (stats (process_content env s url depth content)) = skipped_duplicates (stats s) \<and>
   content_fingerprints (process_content env s url depth content) = content_fingerprints s"
  by (auto simp: process_content_def add_links_to_queue_def Let_def foldl_add_link_dedup_frame
      split: option.splits prod.splits sum.splits)

lemma fetch_and_process_dedup_frame:
  "skipped_duplicates (stats (fetch_and_process env s url depth)) = skipped_duplicates (stats s) \<and>
   content_fingerprints (fetch_and_process env s url depth) = content_fingerprints s"
  by (auto simp: fetch_and_process_def mark_failed_def Let_def process_content_dedup_frame
      split: http_result.splits)

lemma is_allowed_by_robots_dedup_frame:
  "stats (fst (is_allowed_by_robots env s url)) = stats s \<and>
   content_fingerprints (fst (is_allowed_by_robots env s url)) = content_fingerprints s"
  by (auto simp: is_allowed_by_robots_def Let_def
      split: option.splits robots_read.splits if_splits prod.splits)

lemma apply_rate_limiting_dedup_frame:
  "apply_rate_limiting env s url = Some s' \<Longrightarrow>
   stats s' = stats s \<and> content_fingerprints s' = content_fingerprints s"
  by (auto simp: apply_rate_limiting_def Let_def split: option.splits if_splits)

lemma crawl_thread_step_never_deduplicates:
  "skipped_duplicates (stats (crawl_thread_step env s entry)) = skipped_duplicates (stats s) \<and>
   content_fingerprints (crawl_thread_step env s entry) = content_fingerprints s"
proof -
  obtain priority url depth where e: "entry = (priority, url, depth)" by (cases entry)
  define s1 where "s1 = s\<lparr>stats := (stats s)\<lparr>current_url := url\<rparr>\<rparr>"
  obtain s2 a where r: "is_allowed_by_robots env s1 url = (s2, a)"
    by (cases "is_allowed_by_robots env s1 url")
  have s2: "stats s2 = stats s1" "content_fingerprints s2 = content_fingerprints s"
    using is_allowed_by_robots_dedup_frame[of env s1 url] r by (simp_all add: s1_def)
  define s3 where "s3 = (case apply_rate_limiting env s2 url of None \<Rightarrow> s2 | Some s' \<Rightarrow> s')"
  have s3: "stats s3 = stats s2" "content_fingerprints s3 = content_fingerprints s2"
    using apply_rate_limiting_dedup_frame[of env s2 url] by (auto simp: s3_def split: option.splits)
  have step: "crawl_thread_step env s entry =
      (if url \<in> set (visited_urls s) then s
       else if \<not> force_recrawl s \<and> c_use_db s \<and> is_url_visited (db (engine s)) url
       then s\<lparr>visited_urls := List.insert url (visited_urls s)\<rparr>
       else if a then fetch_and_process env s3 url depth
       else s2\<lparr>stats := (stats s2)\<lparr>robots_blocked := robots_blocked (stats s2) + 1\<rparr>,
               visited_urls := List.insert url (visited_urls s2)\<rparr>)"
    by (cases a) (simp_all add: crawl_thread_step_def e s1_def[symmetric] r s3_def Let_def)
  show ?thesis
    unfolding step using s2 s3 fetch_and_process_dedup_frame[of env s3 url depth]
    by (simp add: s1_def)
qed

text \<open>
  C5 on the code. Two pages with the same title and text, crawled one after the other by a
  new crawler: both are indexed, \<open>skipped_duplicates\<close> stays 0, and the fingerprint table
  stays empty. The loop never calls \<open>is_duplicate_content\<close>; \<open>_process_page\<close>, which
  does, is not called by the loop.
\<close>

theorem crawl_loop_indexes_duplicates:
  "extract_text_content example_env ''<html/>'' ''http://h/1''
     = extract_text_content example_env ''<html/>'' ''http://h/2'' \<and>
   indexed (stats (crawl_thread_step example_env
      (crawl_thread_step example_env (new_crawler (new_engine 0) 0) (1, ''http://h/1'', 0))
      (1, ''http://h/2'', 0))) = 2 \<and>
   skipped_duplicates (stats (crawl_thread_step example_env
      (crawl_thread_step example_env (new_crawler (new_engine 0) 0) (1, ''http://h/1'', 0))
      (1, ''http://h/2'', 0))) = 0 \<and>
   map d_url (documents (db (engine (crawl_thread_step example_env
      (crawl_thread_step example_env (new_crawler (new_engine 0) 0) (1, ''http://h/1'', 0))
      (1, ''http://h/2'', 0))))) = [''http://h/1'', ''http://h/2''] \<and>
   content_fingerprints (crawl_thread_step example_env
      (crawl_thread_step example_env (new_crawler (new_engine 0) 0) (1, ''http://h/1'', 0))
      (1, ''http://h/2'', 0))
      (compute_content_fingerprint example_env ''python snakes bite'' ''News'') = None"
  by code_simp

lemma is_allowed_by_robots_frame:
  "fetched (fst (is_allowed_by_robots env s url)) = fetched s \<and>
   stats (fst (is_allowed_by_robots env s url)) = stats s \<and>
   visited_urls (fst (is_allowed_by_robots env s url)) = visited_urls s \<and>
   engine (fst (is_allowed_by_robots env s url)) = engine s"
  by (auto simp: is_allowed_by_robots_def Let_def
      split: option.splits robots_read.splits if_splits prod.splits)

lemma is_allowed_by_robots_stats:
  "snd (is_allowed_by_robots env (s\<lparr>stats := st\<rparr>) url) = snd (is_allowed_by_robots env s url)"
  by (auto simp: is_allowed_by_robots_def Let_def
      split: option.splits robots_read.splits if_splits prod.splits)

text \<open>
  C6, as the code has it. When the loop reaches the robots check for a URL (the URL is not
  yet visited, in memory or in the visit log) and the check denies it, the turn sends no
  page request, adds 1 to \<open>robots_blocked\<close>, and puts the URL into the in-memory visited
  set.
\<close>

theorem robots_denied_step:
  assumes "url \<notin> set (visited_urls s)"
    and "force_recrawl s \<or> \<not> c_use_db s \<or> \<not> is_url_visited (db (engine s)) url"
    and "\<not> snd (is_allowed_by_robots env s url)"
  shows "fetched (crawl_thread_step env s (priority, url, depth)) = fetched s \<and>
         robots_blocked (stats (crawl_thread_step env s (priority, url, depth)))
           = robots_blocked (stats s) + 1 \<and>
         url \<in> set (visited_urls (crawl_thread_step env s (priority, url, depth)))"
proof -
  define s1 where "s1 = s\<lparr>stats := (stats s)\<lparr>current_url := url\<rparr>\<rparr>"
  obtain s2 a where r: "is_allowed_by_robots env s1 url = (s2, a)"
    by (cases "is_allowed_by_robots env s1 url")
  have "\<not> a"
    using assms(3) r
      is_allowed_by_robots_stats
        [where env = env and s = s and st = "(stats s)\<lparr>current_url := url\<rparr>" and url = url]
    by (simp add: s1_def)
  moreover have "fetched s2 = fetched s" "robots_blocked (stats s2) = robots_blocked (stats s)"
    using is_allowed_by_robots_frame[of env s1 url] r by (simp_all add: s1_def)
  ultimately show ?thesis using assms(1,2) r
    by (simp add: crawl_thread_step_def s1_def[symmetric])
qed

theorem robots_denied_step_witness:
  "fetched (crawl_thread_step example_env (new_crawler (new_engine 0) 0)
              (1, ''http://h/private'', 0)) = [] \<and>
   robots_blocked (stats (crawl_thread_step example_env (new_crawler (new_engine 0) 0)
              (1, ''http://h/private'', 0))) = 1 \<and>
   ''http://h/private'' \<in> set (visited_urls
      (crawl_thread_step example_env (new_crawler (new_engine 0) 0)
              (1, ''http://h/private'', 0)))"
proof -
  have 1: "''http://h/private'' \<notin> set (visited_urls (new_crawler (new_engine 0) 0))"
    by (simp add: new_crawler_def)
  have 2: "force_recrawl (new_crawler (new_engine 0) 0) \<or>
           \<not> c_use_db (new_crawler (new_engine 0) 0) \<or>
           \<not> is_url_visited (db (engine (new_crawler (new_engine 0) 0))) ''http://h/private''"
    by (simp add: new_crawler_def new_engine_def init_db_def is_url_visited_def)
  have 3: "\<not> snd (is_allowed_by_robots example_env (new_crawler (new_engine 0) 0)
                    ''http://h/private'')"
    by code_simp
  show ?thesis
    using robots_denied_step [OF 1 2 3, of 1 0]
    by (simp add: new_crawler_def initial_stats_def)
qed

text \<open>
  C6 as stated fails on the visit log: after the robots check has denied a URL, the
  \<open>crawler_visits\<close> table has no row for it.
\<close>

theorem robots_denied_no_visit_row_counterexample:
  "\<not> snd (is_allowed_by_robots example_env (new_crawler (new_engine 0) 0)
            ''http://h/private'') \<and>
   \<not> is_url_visited
       (db (engine (crawl_thread_step example_env (new_crawler (new_engine 0) 0)
                      (1, ''http://h/private'', 0))))
       ''http://h/private''"
  by code_simp

end
